theory Spec2Isabelle
  imports Complex_Main
begin

section \<open>Data model of \<open>main.py\<close>\<close>

text \<open>
  The pydantic models and the \<open>processed_agent_data\<close> table. A Python \<open>float\<close> is only
  stored and returned, never computed with, so it is the \<open>real\<close> it denotes (infinities and
  NaN are left out). A web socket is identified by a number.

  A Python \<open>datetime\<close> is either naive, a wall-clock time with no zone, or aware, a
  wall-clock time with its offset from UTC. Both numbers count microseconds; a wall-clock time
  counts them from 1970-01-01T00:00:00 on that clock, so the instant of \<open>Aware t off\<close> is
  \<open>t - off\<close> microseconds after the epoch.
\<close>

datatype datetime = Naive int | Aware int int

type_synonym websocket = nat

record AccelerometerData =
  acc_x :: real
  acc_y :: real
  acc_z :: real

record GpsData =
  gps_latitude :: real
  gps_longitude :: real

record AgentData =
  agent_user_id :: int
  accelerometer :: AccelerometerData
  gps :: GpsData
  agent_timestamp :: datetime

record ProcessedAgentData =
  data_road_state :: string
  agent_data :: AgentData

record ProcessedAgentDataInDB =
  db_id :: int
  db_road_state :: string
  db_user_id :: int
  db_x :: real
  db_y :: real
  db_z :: real
  db_latitude :: real
  db_longitude :: real
  db_timestamp :: datetime

text \<open>
  A row of the table is the tuple of its nine columns, in the order of the
  \<open>Column\<close> declarations: id, road_state, user_id, x, y, z, latitude, longitude,
  timestamp. The eight columns after the id are the values of an insert or update.
\<close>

type_synonym col_values = "string \<times> int \<times> real \<times> real \<times> real \<times> real \<times> real \<times> datetime"
type_synonym row = "int \<times> col_values"

text \<open>
  The years 1 to 9999 of Python's \<open>datetime\<close>, as microseconds of wall-clock time. Every
  \<open>datetime\<close> of a request lies in them.
\<close>

definition representable :: "datetime \<Rightarrow> bool" where
  "representable ts =
     (case ts of
        Naive t \<Rightarrow> - 62135596800000000 \<le> t \<and> t \<le> 253402300799999999
      | Aware t off \<Rightarrow> - 62135596800000000 \<le> t \<and> t \<le> 253402300799999999)"

subsection \<open>Exceptions\<close>

text \<open>
  Every \<open>raise\<close> of the source is a value. \<open>HTTPException\<close> is a subclass of Python's
  \<open>Exception\<close>, so it is one constructor among the others; its detail is either a
  literal text or \<open>str(e)\<close> of a caught exception, kept symbolic.
\<close>

datatype exc =
    HTTPException nat detail
  | OperationalError
  | IntegrityError
  | DataError
  | TypeError
  | KeyError
  | ValueError string
  | RequestValidationError
  | SendFailed
and detail =
    Text string
  | StrOf exc

text \<open>
  The HTTP status the framework answers with: the status of an \<open>HTTPException\<close>, 422 for a
  request that failed validation, 500 for any other exception that leaves a handler, 200 for a
  normal return.
\<close>

fun status_code :: "exc + 'a \<Rightarrow> nat" where
  "status_code (Inr v) = 200"
| "status_code (Inl (HTTPException c d)) = c"
| "status_code (Inl RequestValidationError) = 422"
| "status_code (Inl e) = 500"

text \<open>
  \<open>try: body except Exception as e: raise HTTPException(status_code=500, detail=str(e))\<close>,
  the frame around every CRUD handler. It catches every exception of the body, an
  \<open>HTTPException\<close> raised there included.
\<close>

definition except_Exception :: "exc + 'a \<Rightarrow> exc + 'a" where
  "except_Exception body =
     (case body of Inl e \<Rightarrow> Inl (HTTPException 500 (StrOf e)) | Inr v \<Rightarrow> Inr v)"

subsection \<open>The store\<close>

text \<open>
  The PostgreSQL table behind the SQLAlchemy session, reached through psycopg2: the rows of
  the table, the sequence that assigns the integer primary key, whether the server can be
  reached, and the offset from UTC of the session's time zone at each instant. A statement
  together with its commit is one step. The list of rows stands for the table's content; its
  order is the order in which a query without \<open>ORDER BY\<close> happens to return them, which
  nothing below relies on.
\<close>

record database =
  table_rows :: "row list"
  id_seq :: int
  reachable :: bool
  utc_offset :: "int \<Rightarrow> int"

definition row_id :: "row \<Rightarrow> int" where
  "row_id r = fst r"

text \<open>The range of an \<open>Integer\<close> column, 32 bits.\<close>

definition int32 :: "int \<Rightarrow> bool" where
  "int32 n = (- 2147483648 \<le> n \<and> n \<le> 2147483647)"

text \<open>
  What the \<open>DateTime\<close> column, a timestamp without time zone, keeps of a value: a naive
  value as it is; of an aware value its instant, as wall-clock time in the session's time
  zone, the offset gone. A converted value outside the years 1 to 9999 is outside this model:
  the facts below that read a timestamp back assume \<open>representable\<close> of it.
\<close>

definition stored_timestamp :: "database \<Rightarrow> datetime \<Rightarrow> datetime" where
  "stored_timestamp d ts =
     (case ts of
        Naive t \<Rightarrow> Naive t
      | Aware t off \<Rightarrow> Naive (t - off + utc_offset d (t - off)))"

definition as_stored :: "database \<Rightarrow> col_values \<Rightarrow> col_values" where
  "as_stored d vs =
     (case vs of (rs, u, x, y, z, la, lo, ts) \<Rightarrow> (rs, u, x, y, z, la, lo, stored_timestamp d ts))"

text \<open>
  The values a statement cannot carry: psycopg2 raises \<open>ValueError\<close> for a text with a NUL
  character before anything is sent, and the server refuses a user_id outside the
  \<open>Integer\<close> column when it plans the statement, whether or not a row is concerned.
\<close>

definition refused :: "col_values \<Rightarrow> exc option" where
  "refused vs =
     (case vs of (rs, u, rest) \<Rightarrow>
        if CHR 0x00 \<in> set rs
        then Some (ValueError ''A string literal cannot contain NUL (0x00) characters.'')
        else if \<not> int32 u then Some DataError
        else None)"

text \<open>\<open>select(processed_agent_data).where(processed_agent_data.c.id == record_id)\<close>, \<open>fetchone()\<close>.\<close>

definition select_where_id :: "int \<Rightarrow> database \<Rightarrow> exc + row option" where
  "select_where_id record_id d =
     (if reachable d then Inr (find (\<lambda>r. row_id r = record_id) (table_rows d))
      else Inl OperationalError)"

text \<open>\<open>db.query(processed_agent_data).all()\<close>.\<close>

definition query_all :: "database \<Rightarrow> exc + row list" where
  "query_all d = (if reachable d then Inr (table_rows d) else Inl OperationalError)"

text \<open>
  \<open>processed_agent_data.insert().values(...)\<close> and \<open>commit\<close>. The id comes from the
  sequence, which has the range of the column. The primary key refuses an id that is already
  there; the sequence has moved on by then, and a refused statement does not move it back.
\<close>

definition insert_values :: "col_values \<Rightarrow> database \<Rightarrow> (exc + unit) \<times> database" where
  "insert_values vs d =
     (if \<not> reachable d then (Inl OperationalError, d)
      else case refused vs of
        Some e \<Rightarrow> (Inl e, d)
      | None \<Rightarrow>
          if \<not> int32 (id_seq d) then (Inl DataError, d)
          else if id_seq d \<in> set (map row_id (table_rows d))
          then (Inl IntegrityError, d\<lparr>id_seq := id_seq d + 1\<rparr>)
          else (Inr (),
                d\<lparr>table_rows := table_rows d @ [(id_seq d, as_stored d vs)],
                  id_seq := id_seq d + 1\<rparr>))"

text \<open>\<open>processed_agent_data.update().where(id == record_id).values(**new_data)\<close> and \<open>commit\<close>.\<close>

definition update_where_id :: "int \<Rightarrow> col_values \<Rightarrow> database \<Rightarrow> exc + database" where
  "update_where_id record_id vs d =
     (if \<not> reachable d then Inl OperationalError
      else case refused vs of
        Some e \<Rightarrow> Inl e
      | None \<Rightarrow>
          Inr (d\<lparr>table_rows :=
                   map (\<lambda>r. if row_id r = record_id then (row_id r, as_stored d vs) else r)
                     (table_rows d)\<rparr>))"

text \<open>\<open>processed_agent_data.delete().where(id == record_id)\<close> and \<open>commit\<close>.\<close>

definition delete_where_id :: "int \<Rightarrow> database \<Rightarrow> exc + database" where
  "delete_where_id record_id d =
     (if reachable d
      then Inr (d\<lparr>table_rows := filter (\<lambda>r. row_id r \<noteq> record_id) (table_rows d)\<rparr>)
      else Inl OperationalError)"

subsection \<open>The process state\<close>

text \<open>
  The store, the module-level set \<open>subscriptions\<close>, and the web sockets' side of the world:
  the sockets on which a send fails, and the log of the messages sent, oldest first.
\<close>

record world =
  db :: database
  subscriptions :: "websocket set"
  broken :: "websocket set"
  outbox :: "(websocket \<times> string) list"

section \<open>The subscriber set\<close>

text \<open>\<open>subscriptions.remove(websocket)\<close>: Python's \<open>set.remove\<close> raises \<open>KeyError\<close> on an absent element.\<close>

definition set_remove :: "websocket \<Rightarrow> websocket set \<Rightarrow> exc + websocket set" where
  "set_remove ws S = (if ws \<in> S then Inr (S - {ws}) else Inl KeyError)"

text \<open>
  \<open>websocket_endpoint\<close> up to its receive loop (\<open>accept\<close>, \<open>subscriptions.add\<close>), and its
  \<open>except WebSocketDisconnect\<close> branch, which the loop reaches when the peer goes away.
\<close>

definition websocket_connect :: "websocket \<Rightarrow> world \<Rightarrow> world" where
  "websocket_connect ws w = w\<lparr>subscriptions := insert ws (subscriptions w)\<rparr>"

definition websocket_disconnect :: "websocket \<Rightarrow> world \<Rightarrow> (exc + unit) \<times> world" where
  "websocket_disconnect ws w =
     (case set_remove ws (subscriptions w) of
        Inl e \<Rightarrow> (Inl e, w)
      | Inr S \<Rightarrow> (Inr (), w\<lparr>subscriptions := S\<rparr>))"

text \<open>The whole endpoint for a peer that connects and later goes away.\<close>

definition websocket_endpoint :: "websocket \<Rightarrow> world \<Rightarrow> (exc + unit) \<times> world" where
  "websocket_endpoint ws w = websocket_disconnect ws (websocket_connect ws w)"

text \<open>\<open>websocket.send_json(text)\<close>: fails on a broken socket, otherwise the text is sent.\<close>

definition send_json :: "websocket \<Rightarrow> string \<Rightarrow> world \<Rightarrow> (exc + unit) \<times> world" where
  "send_json ws text w =
     (if ws \<in> broken w then (Inl SendFailed, w)
      else (Inr (), w\<lparr>outbox := outbox w @ [(ws, text)]\<rparr>))"

text \<open>
  \<open>send_data_to_subscribers\<close>: the loop \<open>for websocket in subscriptions\<close>, over the elements of
  the set in the order the iteration yields them (a Python set fixes no order, so the order is
  an argument). \<open>json.dumps(data)\<close> is the argument \<open>dumps\<close>, evaluated in every round; it raises
  on a value that is not serialisable. There is no \<open>try\<close> in the loop: the first exception
  leaves it.
\<close>

fun send_data_to_subscribers ::
  "('d \<Rightarrow> exc + string) \<Rightarrow> websocket list \<Rightarrow> 'd \<Rightarrow> world \<Rightarrow> (exc + unit) \<times> world" where
  "send_data_to_subscribers dumps [] data w = (Inr (), w)"
| "send_data_to_subscribers dumps (ws # rest) data w =
     (case dumps data of
        Inl e \<Rightarrow> (Inl e, w)
      | Inr text \<Rightarrow>
          (case send_json ws text w of
             (Inl e, w') \<Rightarrow> (Inl e, w')
           | (Inr u, w') \<Rightarrow> send_data_to_subscribers dumps rest data w'))"

section \<open>The CRUD handlers\<close>

definition row_to_model :: "row \<Rightarrow> ProcessedAgentDataInDB" where
  "row_to_model r =
     (case r of (i, rs, u, x, y, z, la, lo, t) \<Rightarrow>
        \<lparr>db_id = i, db_road_state = rs, db_user_id = u, db_x = x, db_y = y, db_z = z,
         db_latitude = la, db_longitude = lo, db_timestamp = t\<rparr>)"

text \<open>The eight values the create and update handlers take out of the request body.\<close>

definition new_data :: "ProcessedAgentData \<Rightarrow> col_values" where
  "new_data data =
     (data_road_state data,
      agent_user_id (agent_data data),
      acc_x (accelerometer (agent_data data)),
      acc_y (accelerometer (agent_data data)),
      acc_z (accelerometer (agent_data data)),
      gps_latitude (gps (agent_data data)),
      gps_longitude (gps (agent_data data)),
      agent_timestamp (agent_data data))"

definition read_processed_agent_data :: "int \<Rightarrow> world \<Rightarrow> exc + ProcessedAgentDataInDB" where
  "read_processed_agent_data record_id w =
     except_Exception
       (case select_where_id record_id (db w) of
          Inl e \<Rightarrow> Inl e
        | Inr (Some record) \<Rightarrow> Inr (row_to_model record)
        | Inr None \<Rightarrow> Inl (HTTPException 404 (Text ''Record not found'')))"

text \<open>The body of the answer of a successful create is the dictionary \<open>{"message": "OK"}\<close>.\<close>

definition create_processed_agent_data ::
  "ProcessedAgentData \<Rightarrow> world \<Rightarrow> (exc + (string \<times> string) list) \<times> world" where
  "create_processed_agent_data data w =
     (case insert_values (new_data data) (db w) of
        (Inl e, d) \<Rightarrow> (except_Exception (Inl e), w\<lparr>db := d\<rparr>)
      | (Inr u, d) \<Rightarrow> (Inr [(''message'', ''OK'')], w\<lparr>db := d\<rparr>))"

definition list_processed_agent_data :: "world \<Rightarrow> exc + ProcessedAgentDataInDB list" where
  "list_processed_agent_data w =
     except_Exception
       (case query_all (db w) of
          Inl e \<Rightarrow> Inl e
        | Inr rs \<Rightarrow> Inr (map row_to_model rs))"

definition update_processed_agent_data ::
  "int \<Rightarrow> ProcessedAgentData \<Rightarrow> world \<Rightarrow> (exc + ProcessedAgentDataInDB) \<times> world" where
  "update_processed_agent_data record_id data w =
     (case update_where_id record_id (new_data data) (db w) of
        Inl e \<Rightarrow> (except_Exception (Inl e), w)
      | Inr d \<Rightarrow> (Inr (row_to_model (record_id, new_data data)), w\<lparr>db := d\<rparr>))"

text \<open>
  In the delete handler \<open>data_to_delete\<close> is what \<open>fetchone()\<close> gave, \<open>None\<close> when no row
  matched; the handler indexes it after the delete is committed, and indexing \<open>None\<close> raises
  \<open>TypeError\<close>.
\<close>

definition delete_processed_agent_data ::
  "int \<Rightarrow> world \<Rightarrow> (exc + ProcessedAgentDataInDB) \<times> world" where
  "delete_processed_agent_data record_id w =
     (case select_where_id record_id (db w) of
        Inl e \<Rightarrow> (except_Exception (Inl e), w)
      | Inr data_to_delete \<Rightarrow>
          (case delete_where_id record_id (db w) of
             Inl e \<Rightarrow> (except_Exception (Inl e), w)
           | Inr d \<Rightarrow>
               (case data_to_delete of
                  None \<Rightarrow> (except_Exception (Inl TypeError), w\<lparr>db := d\<rparr>)
                | Some r \<Rightarrow> (Inr (row_to_model r), w\<lparr>db := d\<rparr>))))"

section \<open>Request validation and routing\<close>

text \<open>
  A value as it arrives in a request body, before validation: already a \<open>datetime\<close>, a
  text, a whole number, or anything else (\<open>null\<close>, a list, a fraction).
\<close>

datatype py_value = PyDatetime datetime | PyStr string | PyInt int | PyOther

text \<open>
  \<open>AgentData.check_timestamp\<close>. \<open>datetime.fromisoformat\<close> is the argument \<open>fromisoformat\<close>:
  \<open>None\<close> where it raises \<open>ValueError\<close>; on a value that is not a text it raises
  \<open>TypeError\<close>. Both are caught and raised again as the \<open>ValueError\<close> of the validator.

  The source stacks \<open>@classmethod\<close> above \<open>@field_validator\<close>, so the attribute of the
  class is a plain class method and pydantic, which collects the validators of a model from
  the attributes that \<open>field_validator\<close> itself returned, finds none: nothing calls this
  function.
\<close>

fun check_timestamp :: "(string \<Rightarrow> datetime option) \<Rightarrow> py_value \<Rightarrow> exc + datetime" where
  "check_timestamp fromisoformat (PyDatetime d) = Inr d"
| "check_timestamp fromisoformat (PyStr s) =
     (case fromisoformat s of
        Some d \<Rightarrow> Inr d
      | None \<Rightarrow>
          Inl (ValueError
            ''Invalid timestamp format. Expected ISO 8601 format (YYYY-MM-DDTHH:MM:SSZ).''))"
| "check_timestamp fromisoformat v =
     Inl (ValueError
       ''Invalid timestamp format. Expected ISO 8601 format (YYYY-MM-DDTHH:MM:SSZ).'')"

text \<open>The number that a text of decimal digits, and of nothing else, writes.\<close>

definition digit :: "char \<Rightarrow> int option" where
  "digit c =
     map_of [(CHR ''0'', 0), (CHR ''1'', 1), (CHR ''2'', 2), (CHR ''3'', 3), (CHR ''4'', 4),
             (CHR ''5'', 5), (CHR ''6'', 6), (CHR ''7'', 7), (CHR ''8'', 8), (CHR ''9'', 9)] c"

fun decimal :: "int \<Rightarrow> string \<Rightarrow> int option" where
  "decimal n [] = Some n"
| "decimal n (c # cs) =
     (case digit c of None \<Rightarrow> None | Some k \<Rightarrow> decimal (10 * n + k) cs)"

definition unix_text :: "string \<Rightarrow> int option" where
  "unix_text s = (if s = [] then None else decimal 0 s)"

text \<open>
  What decides the timestamp of a request is the type of the field, \<open>timestamp: datetime\<close>,
  and pydantic's own conversion to it. A whole number from 0 to 20 000 000 000, or a text of
  digits that writes one, is taken as seconds of Unix time and becomes an aware \<open>datetime\<close>
  in UTC. What the conversion makes of every other value (the ISO 8601 formats it parses, the
  numbers it reads as milliseconds, what it refuses) is the argument \<open>other\<close>.
\<close>

definition unix_seconds :: "int \<Rightarrow> datetime option" where
  "unix_seconds n =
     (if 0 \<le> n \<and> n \<le> 20000000000 then Some (Aware (n * 1000000) 0) else None)"

definition pydantic_datetime ::
  "(py_value \<Rightarrow> datetime option) \<Rightarrow> py_value \<Rightarrow> exc + datetime" where
  "pydantic_datetime other v =
     (case (case v of
              PyDatetime d \<Rightarrow> Some d
            | PyInt n \<Rightarrow>
                (case unix_seconds n of Some d \<Rightarrow> Some d | None \<Rightarrow> other v)
            | PyStr s \<Rightarrow>
                (case Option.bind (unix_text s) unix_seconds of
                   Some d \<Rightarrow> Some d
                 | None \<Rightarrow> other v)
            | PyOther \<Rightarrow> other v) of
        Some d \<Rightarrow> Inr d
      | None \<Rightarrow> Inl RequestValidationError)"

text \<open>
  The body of a POST or PUT request: the fields of \<open>ProcessedAgentData\<close>, the timestamp not
  yet validated.
\<close>

record request_body =
  body_road_state :: string
  body_user_id :: int
  body_accelerometer :: AccelerometerData
  body_gps :: GpsData
  body_timestamp :: py_value

text \<open>
  The parameter \<open>data: ProcessedAgentData\<close> of a handler: the framework builds the model from
  the body and answers a request whose body fails with 422 without calling the handler.
\<close>

definition validate_body ::
  "(py_value \<Rightarrow> datetime option) \<Rightarrow> request_body \<Rightarrow> exc + ProcessedAgentData" where
  "validate_body other b =
     (case pydantic_datetime other (body_timestamp b) of
        Inl e \<Rightarrow> Inl e
      | Inr t \<Rightarrow>
          Inr \<lparr>data_road_state = body_road_state b,
               agent_data = \<lparr>agent_user_id = body_user_id b,
                             accelerometer = body_accelerometer b,
                             gps = body_gps b,
                             agent_timestamp = t\<rparr>\<rparr>)"

definition post_processed_agent_data ::
  "(py_value \<Rightarrow> datetime option) \<Rightarrow> request_body \<Rightarrow> world
     \<Rightarrow> (exc + (string \<times> string) list) \<times> world" where
  "post_processed_agent_data other b w =
     (case validate_body other b of
        Inl e \<Rightarrow> (Inl e, w)
      | Inr data \<Rightarrow> create_processed_agent_data data w)"





text \<open>The value under the key \<open>id\<close> in the answer of a create, if the answer has one.\<close>

definition returned_id :: "exc + (string \<times> string) list \<Rightarrow> string option" where
  "returned_id answer = (case answer of Inl e \<Rightarrow> None | Inr body \<Rightarrow> map_of body ''id'')"

section \<open>Example inputs\<close>

text \<open>
  The record of the spec's scenario (timestamp 2024-01-01T00:00:00, naive), a second record,
  the scenario record with the same instant written as 2024-01-01T02:00:00+02:00, and the
  scenario record with a user_id of \<open>2^31\<close>.
\<close>

definition pothole :: ProcessedAgentData where
  "pothole =
     \<lparr>data_road_state = ''pothole'',
      agent_data = \<lparr>agent_user_id = 7,
                    accelerometer = \<lparr>acc_x = 1 / 10, acc_y = 2 / 10, acc_z = 98 / 10\<rparr>,
                    gps = \<lparr>gps_latitude = 501 / 10, gps_longitude = 305 / 10\<rparr>,
                    agent_timestamp = Naive 1704067200000000\<rparr>\<rparr>"

definition bump :: ProcessedAgentData where
  "bump =
     \<lparr>data_road_state = ''bump'',
      agent_data = \<lparr>agent_user_id = 8,
                    accelerometer = \<lparr>acc_x = 3, acc_y = 4, acc_z = 5\<rparr>,
                    gps = \<lparr>gps_latitude = 49, gps_longitude = 24\<rparr>,
                    agent_timestamp = Naive 1704070800000000\<rparr>\<rparr>"

definition pothole_plus2 :: ProcessedAgentData where
  "pothole_plus2 =
     \<lparr>data_road_state = ''pothole'',
      agent_data = \<lparr>agent_user_id = 7,
                    accelerometer = \<lparr>acc_x = 1 / 10, acc_y = 2 / 10, acc_z = 98 / 10\<rparr>,
                    gps = \<lparr>gps_latitude = 501 / 10, gps_longitude = 305 / 10\<rparr>,
                    agent_timestamp = Aware 1704074400000000 7200000000\<rparr>\<rparr>"

definition pothole_big_user :: ProcessedAgentData where
  "pothole_big_user =
     \<lparr>data_road_state = ''pothole'',
      agent_data = \<lparr>agent_user_id = 2147483648,
                    accelerometer = \<lparr>acc_x = 1 / 10, acc_y = 2 / 10, acc_z = 98 / 10\<rparr>,
                    gps = \<lparr>gps_latitude = 501 / 10, gps_longitude = 305 / 10\<rparr>,
                    agent_timestamp = Naive 1704067200000000\<rparr>\<rparr>"

text \<open>
  A fresh process with an empty reachable store whose session is in UTC, and variations
  of it.
\<close>

definition fresh :: world where
  "fresh =
     \<lparr>db = \<lparr>table_rows = [], id_seq = 1, reachable = True, utc_offset = (\<lambda>t. 0)\<rparr>,
      subscriptions = {}, broken = {}, outbox = []\<rparr>"

definition unreachable :: world where
  "unreachable =
     \<lparr>db = \<lparr>table_rows = [], id_seq = 1, reachable = False, utc_offset = (\<lambda>t. 0)\<rparr>,
      subscriptions = {}, broken = {}, outbox = []\<rparr>"

definition two_rows :: world where
  "two_rows =
     \<lparr>db = \<lparr>table_rows = [(1, new_data pothole), (2, new_data bump)], id_seq = 3,
            reachable = True, utc_offset = (\<lambda>t. 0)\<rparr>,
      subscriptions = {}, broken = {}, outbox = []\<rparr>"

definition one_listener :: world where
  "one_listener =
     \<lparr>db = \<lparr>table_rows = [], id_seq = 1, reachable = True, utc_offset = (\<lambda>t. 0)\<rparr>,
      subscriptions = {1}, broken = {}, outbox = []\<rparr>"

definition three_listeners :: world where
  "three_listeners =
     \<lparr>db = \<lparr>table_rows = [], id_seq = 1, reachable = True, utc_offset = (\<lambda>t. 0)\<rparr>,
      subscriptions = {1, 2, 3}, broken = {2}, outbox = []\<rparr>"

text \<open>
  A stand-in for \<open>datetime.fromisoformat\<close> that knows one text, and the body of the
  scenario with the timestamp written as the text of a Unix time.
\<close>

definition iso_2024 :: "string \<Rightarrow> datetime option" where
  "iso_2024 s = (if s = ''2024-01-01T00:00:00'' then Some (Naive 1704067200000000) else None)"

definition unix_body :: request_body where
  "unix_body =
     \<lparr>body_road_state = ''pothole'', body_user_id = 7,
      body_accelerometer = \<lparr>acc_x = 1 / 10, acc_y = 2 / 10, acc_z = 98 / 10\<rparr>,
      body_gps = \<lparr>gps_latitude = 501 / 10, gps_longitude = 305 / 10\<rparr>,
      body_timestamp = PyStr ''1704067200''\<rparr>"

section \<open>Auxiliary facts\<close>

lemma row_id_pair: "row_id (i, vs) = i"
  by (simp add: row_id_def)

lemma stored_naive: "stored_timestamp d (Naive t) = Naive t"
  by (simp add: stored_timestamp_def)

lemma find_append_fresh:
  assumes "i \<notin> set (map row_id rs)"
  shows "find (\<lambda>r. row_id r = i) (rs @ [(i, vs)]) = Some (i, vs)"
  using assms by (induction rs) (auto simp: row_id_def)

lemma find_map_update:
  assumes "i \<in> set (map row_id rs)"
  shows "find (\<lambda>r. row_id r = i) (map (\<lambda>r. if row_id r = i then (row_id r, vs) else r) rs)
     = Some (i, vs)"
  using assms by (induction rs) (auto simp: row_id_def)

lemma find_map_update_other:
  assumes "j \<noteq> i"
  shows "find (\<lambda>r. row_id r = j) (map (\<lambda>r. if row_id r = i then (row_id r, vs) else r) rs)
     = find (\<lambda>r. row_id r = j) rs"
  using assms by (induction rs) (auto simp: row_id_def)




lemma map_update_absent:
  assumes "i \<notin> set (map row_id rs)"
  shows "map (\<lambda>r. if row_id r = i then (row_id r, vs) else r) rs = rs"
  using assms by (induction rs) auto

text \<open>A read that finds a row returns it; a read that finds none does not answer 404.\<close>

lemma read_found:
  assumes "reachable (db w)"
    and "find (\<lambda>r. row_id r = record_id) (table_rows (db w)) = Some r"
  shows "read_processed_agent_data record_id w = Inr (row_to_model r)"
  using assms
  by (simp add: read_processed_agent_data_def select_where_id_def except_Exception_def)

lemma read_absent:
  assumes "reachable (db w)" and "record_id \<notin> set (map row_id (table_rows (db w)))"
  shows "read_processed_agent_data record_id w
     = Inl (HTTPException 500 (StrOf (HTTPException 404 (Text ''Record not found''))))"
proof -
  have "find (\<lambda>r. row_id r = record_id) (table_rows (db w)) = None"
    using assms(2) by (auto simp: find_None_iff)
  then show ?thesis
    using assms(1)
    by (simp add: read_processed_agent_data_def select_where_id_def except_Exception_def)
qed

text \<open>
  What a read depends on: whether the store is reachable, and the row that the table has for
  the id.
\<close>

lemma read_cong:
  assumes "reachable (db w') = reachable (db w)"
    and "find (\<lambda>r. row_id r = j) (table_rows (db w'))
       = find (\<lambda>r. row_id r = j) (table_rows (db w))"
  shows "read_processed_agent_data j w' = read_processed_agent_data j w"
  using assms by (simp add: read_processed_agent_data_def select_where_id_def)

text \<open>
  An update that the store carries out answers with the values of the request and rewrites
  the rows that have the id.
\<close>

lemma update_step:
  assumes "reachable (db w)" and "refused (new_data data) = None"
  shows "update_processed_agent_data record_id data w
     = (Inr (row_to_model (record_id, new_data data)),
        w\<lparr>db := (db w)\<lparr>table_rows :=
             map (\<lambda>r. if row_id r = record_id
                      then (row_id r, as_stored (db w) (new_data data)) else r)
               (table_rows (db w))\<rparr>\<rparr>)"
  using assms by (simp add: update_processed_agent_data_def update_where_id_def)

text \<open>An update of an id that no row has changes no row and still returns a record.\<close>

lemma update_absent:
  assumes "reachable (db w)" and "refused (new_data data) = None"
    and "record_id \<notin> set (map row_id (table_rows (db w)))"
  shows "fst (update_processed_agent_data record_id data w)
       = Inr (row_to_model (record_id, new_data data))"
    and "table_rows (db (snd (update_processed_agent_data record_id data w)))
       = table_rows (db w)"
  using assms by (simp_all add: update_step map_update_absent)

text \<open>
  A delete of a present id returns the row as it was and leaves no row with that id; a
  delete of an absent id ends in the \<open>TypeError\<close> of indexing \<open>None\<close>.
\<close>

lemma delete_step:
  assumes "reachable (db w)"
    and "find (\<lambda>r. row_id r = record_id) (table_rows (db w)) = Some r"
  shows "delete_processed_agent_data record_id w
     = (Inr (row_to_model r),
        w\<lparr>db := (db w)\<lparr>table_rows :=
             filter (\<lambda>r. row_id r \<noteq> record_id) (table_rows (db w))\<rparr>\<rparr>)"
  using assms
  by (simp add: delete_processed_agent_data_def select_where_id_def delete_where_id_def)

lemma delete_present:
  assumes "reachable (db w)"
    and "find (\<lambda>r. row_id r = record_id) (table_rows (db w)) = Some r"
  shows "fst (delete_processed_agent_data record_id w) = Inr (row_to_model r)"
    and "record_id \<notin>
           set (map row_id (table_rows (db (snd (delete_processed_agent_data record_id w)))))"
  using assms by (auto simp: delete_step)

lemma delete_absent:
  assumes "reachable (db w)" and "record_id \<notin> set (map row_id (table_rows (db w)))"
  shows "fst (delete_processed_agent_data record_id w)
       = Inl (HTTPException 500 (StrOf TypeError))"
proof -
  have "find (\<lambda>r. row_id r = record_id) (table_rows (db w)) = None"
    using assms(2) by (auto simp: find_None_iff)
  then show ?thesis
    using assms(1)
    by (simp add: delete_processed_agent_data_def select_where_id_def delete_where_id_def
        except_Exception_def)
qed

text \<open>The create handler touches the store only.\<close>

lemma create_leaves_sockets:
  "subscriptions (snd (create_processed_agent_data data w)) = subscriptions w
   \<and> broken (snd (create_processed_agent_data data w)) = broken w
   \<and> outbox (snd (create_processed_agent_data data w)) = outbox w"
  by (simp add: create_processed_agent_data_def split: prod.splits sum.splits)

text \<open>A create that answers normally has inserted one row under the id of the sequence.\<close>

lemma create_step:
  assumes "fst (create_processed_agent_data data w) = Inr answer"
  shows "answer = [(''message'', ''OK'')]"
    and "reachable (db w)"
    and "id_seq (db w) \<notin> set (map row_id (table_rows (db w)))"
    and "snd (create_processed_agent_data data w)
       = w\<lparr>db := (db w)\<lparr>table_rows :=
               table_rows (db w) @ [(id_seq (db w), as_stored (db w) (new_data data))],
             id_seq := id_seq (db w) + 1\<rparr>\<rparr>"
  using assms
  by (auto simp: create_processed_agent_data_def insert_values_def except_Exception_def
      split: if_splits option.splits)

text \<open>
  A timestamp that pydantic's conversion refuses is answered 422, and the handler is not
  called.
\<close>

lemma post_rejects:
  assumes "pydantic_datetime other (body_timestamp b) = Inl e"
  shows "post_processed_agent_data other b w = (Inl e, w)"
  using assms by (simp add: post_processed_agent_data_def validate_body_def)

text \<open>
  The loop of \<open>send_data_to_subscribers\<close> over sockets none of which is broken sends
  the message to each, in order.
\<close>

lemma publish_prefix_ok:
  assumes "dumps data = Inr msg" and "set pre \<inter> broken w = {}"
  shows "send_data_to_subscribers dumps (pre @ rest) data w
     = send_data_to_subscribers dumps rest data
         (w\<lparr>outbox := outbox w @ map (\<lambda>v. (v, msg)) pre\<rparr>)"
  using assms
proof (induction pre arbitrary: w)
  case Nil
  then show ?case by simp
next
  case (Cons v pre)
  then have v: "v \<notin> broken w" and pre: "set pre \<inter> broken w = {}"
    by auto
  let ?w1 = "w\<lparr>outbox := outbox w @ [(v, msg)]\<rparr>"
  have "send_data_to_subscribers dumps ((v # pre) @ rest) data w
      = send_data_to_subscribers dumps (pre @ rest) data ?w1"
    using Cons.prems(1) v by (simp add: send_json_def)
  also have "\<dots> = send_data_to_subscribers dumps rest data
         (?w1\<lparr>outbox := outbox ?w1 @ map (\<lambda>v. (v, msg)) pre\<rparr>)"
    using Cons.IH [of ?w1] Cons.prems(1) pre by simp
  finally show ?case by simp
qed

lemma publish_all_ok:
  assumes "dumps data = Inr msg" and "set order \<inter> broken w = {}"
  shows "send_data_to_subscribers dumps order data w
     = (Inr (), w\<lparr>outbox := outbox w @ map (\<lambda>v. (v, msg)) order\<rparr>)"
  using publish_prefix_ok [of dumps data msg order w "[]"] assms by simp

section \<open>The claims\<close>

subsection \<open>Create and the subscribers\<close>

text \<open>
  Claim C1: every successful create publishes the committed record, so that every subscriber
  registered at that moment receives exactly one message with the record.

  The handler does not do so. With socket 1 subscribed and working, the create of the
  spec's scenario record inserts the row and answers \<open>{"message": "OK"}\<close>, the set of
  subscribers is as before, and nothing has been sent to anyone: the handler never calls
  \<open>send_data_to_subscribers\<close>.
\<close>

theorem create_does_not_publish:
  "fst (create_processed_agent_data pothole one_listener) = Inr [(''message'', ''OK'')]
   \<and> table_rows (db (snd (create_processed_agent_data pothole one_listener)))
       = [(1, ''pothole'', 7, 1 / 10, 2 / 10, 98 / 10, 501 / 10, 305 / 10,
          Naive 1704067200000000)]
   \<and> subscriptions (snd (create_processed_agent_data pothole one_listener)) = {1}
   \<and> broken (snd (create_processed_agent_data pothole one_listener)) = {}
   \<and> outbox (snd (create_processed_agent_data pothole one_listener)) = []"
  by (simp add: create_processed_agent_data_def insert_values_def one_listener_def
      new_data_def pothole_def refused_def int32_def as_stored_def stored_timestamp_def)

subsection \<open>Ids that no row has\<close>

text \<open>
  Claim C2: a read of an id with no record answers 404, distinct from the answer to a
  persistence failure.

  On the empty store the read of id 1 raises the 404 inside the \<open>try\<close>, the
  \<open>except Exception\<close> of the same handler catches it, and the answer is a 500 whose detail is
  the text of the 404; a read on an unreachable store answers 500 as well.
\<close>

theorem read_absent_answers_500:
  "read_processed_agent_data 1 fresh
     = Inl (HTTPException 500 (StrOf (HTTPException 404 (Text ''Record not found''))))
   \<and> status_code (read_processed_agent_data 1 fresh) = 500
   \<and> read_processed_agent_data 1 unreachable = Inl (HTTPException 500 (StrOf OperationalError))
   \<and> status_code (read_processed_agent_data 1 unreachable) = 500"
  by (simp add: read_processed_agent_data_def select_where_id_def fresh_def unreachable_def
      except_Exception_def)

text \<open>
  Claim C3: an update of an id with no record reports NotFound rather than a success
  payload.

  On the empty store the update of id 1 returns a record with id 1 and the fields of the
  request, status 200, and the store is still empty: the handler does not look at how many
  rows the statement matched.
\<close>

theorem update_absent_returns_payload:
  "update_processed_agent_data 1 pothole fresh
     = (Inr \<lparr>db_id = 1, db_road_state = ''pothole'', db_user_id = 7, db_x = 1 / 10,
             db_y = 2 / 10, db_z = 98 / 10, db_latitude = 501 / 10, db_longitude = 305 / 10,
             db_timestamp = Naive 1704067200000000\<rparr>, fresh)
   \<and> status_code (fst (update_processed_agent_data 1 pothole fresh)) = 200
   \<and> table_rows (db (snd (update_processed_agent_data 1 pothole fresh))) = []"
  by (simp add: update_processed_agent_data_def update_where_id_def fresh_def
      new_data_def pothole_def row_to_model_def refused_def int32_def)

text \<open>
  Claim C4: a delete of an id with no record reports NotFound, a client error; a delete of a
  present id removes the row and returns the record as it was.

  The second half holds (lemma \<open>delete_present\<close>). On the empty store the delete of id 1
  indexes the \<open>None\<close> that \<open>fetchone()\<close> gave, and the answer is the 500 of the
  \<open>TypeError\<close>, a server fault.
\<close>

theorem delete_absent_answers_500:
  "delete_processed_agent_data 1 fresh = (Inl (HTTPException 500 (StrOf TypeError)), fresh)
   \<and> status_code (fst (delete_processed_agent_data 1 fresh)) = 500"
  by (simp add: delete_processed_agent_data_def select_where_id_def delete_where_id_def
      fresh_def except_Exception_def)

subsection \<open>A failing subscriber\<close>

text \<open>
  Claim C5, as stated: a delivery failure to one subscriber unregisters that subscriber and
  is swallowed, the other subscribers still get the message, and the create is unaffected.

  It fails for the sockets 1, 2, 3 with 2 broken: the loop ends with the exception of
  socket 2, socket 2 is still subscribed, and socket 3 has received nothing.
\<close>

theorem publish_failure_not_isolated:
  "fst (send_data_to_subscribers Inr [1, 2, 3] ''{}'' three_listeners) = Inl SendFailed
   \<and> 2 \<in> subscriptions (snd (send_data_to_subscribers Inr [1, 2, 3] ''{}'' three_listeners))
   \<and> (3, ''{}'') \<notin>
        set (outbox (snd (send_data_to_subscribers Inr [1, 2, 3] ''{}'' three_listeners)))"
  by (simp add: send_json_def three_listeners_def)

text \<open>
  Claim C5, amended: for every published record and every order in which the loop meets the
  subscribers, the first delivery failure leaves \<open>send_data_to_subscribers\<close> as its
  exception; the set of subscribers is unchanged, the subscribers met before the failing one
  have been sent the message once, and no one else has. The answer of a create does not
  depend on the subscribers, on their sockets or on what was sent.
\<close>

theorem publish_stops_at_first_failure:
  assumes "dumps data = Inr msg" and "set pre \<inter> broken w = {}" and "ws \<in> broken w"
  shows "fst (send_data_to_subscribers dumps (pre @ ws # post) data w) = Inl SendFailed
     \<and> subscriptions (snd (send_data_to_subscribers dumps (pre @ ws # post) data w))
         = subscriptions w
     \<and> outbox (snd (send_data_to_subscribers dumps (pre @ ws # post) data w))
         = outbox w @ map (\<lambda>v. (v, msg)) pre
     \<and> fst (create_processed_agent_data input (w\<lparr>subscriptions := S, broken := B, outbox := ob\<rparr>))
         = fst (create_processed_agent_data input w)"
proof -
  have "send_data_to_subscribers dumps (pre @ ws # post) data w
      = (Inl SendFailed, w\<lparr>outbox := outbox w @ map (\<lambda>v. (v, msg)) pre\<rparr>)"
    using assms by (simp add: publish_prefix_ok send_json_def)
  moreover have
    "fst (create_processed_agent_data input (w\<lparr>subscriptions := S, broken := B, outbox := ob\<rparr>))
         = fst (create_processed_agent_data input w)"
    by (simp add: create_processed_agent_data_def split: prod.splits sum.splits)
  ultimately show ?thesis by simp
qed

text \<open>
  The amended C5 at the sockets 1, 2, 3 with 2 broken: socket 1 has the message, the three
  are still subscribed.
\<close>

theorem publish_stops_at_first_failure_witness:
  "set [1] \<inter> broken three_listeners = {} \<and> 2 \<in> broken three_listeners
   \<and> fst (send_data_to_subscribers Inr ([1] @ 2 # [3]) ''{}'' three_listeners) = Inl SendFailed
   \<and> subscriptions (snd (send_data_to_subscribers Inr ([1] @ 2 # [3]) ''{}'' three_listeners))
       = {1, 2, 3}
   \<and> outbox (snd (send_data_to_subscribers Inr ([1] @ 2 # [3]) ''{}'' three_listeners))
       = [(1, ''{}'')]"
proof -
  have h1: "(Inr :: string \<Rightarrow> exc + string) ''{}'' = Inr ''{}''"
    by simp
  have h2: "set [1] \<inter> broken three_listeners = {}"
    by (simp add: three_listeners_def)
  have h3: "2 \<in> broken three_listeners"
    by (simp add: three_listeners_def)
  show ?thesis
    using publish_stops_at_first_failure
      [where dumps = Inr and data = "''{}''" and msg = "''{}''" and pre = "[1]"
         and w = three_listeners and ws = 2 and post = "[3]" and input = pothole
         and S = "{}" and B = "{}" and ob = "[]"]
      h1 h2 h3
    by (simp add: three_listeners_def)
qed

subsection \<open>Validation of the timestamp\<close>

text \<open>
  Claim C6: a create whose timestamp is a text that does not parse as ISO 8601 is rejected
  with a validation error before any store call; the store is unchanged and a list afterwards
  shows no new record.

  The text \<open>1704067200\<close> is not ISO 8601, and the validator that the source writes for the
  field, \<open>check_timestamp\<close>, raises its \<open>ValueError\<close> on it. The validator is not in
  force, though: pydantic's own conversion reads the text as a Unix time, the handler runs,
  and the store has a new row, with the timestamp 2024-01-01T00:00:00.
\<close>

theorem create_stores_unix_text:
  "check_timestamp iso_2024 (PyStr ''1704067200'')
     = Inl (ValueError
         ''Invalid timestamp format. Expected ISO 8601 format (YYYY-MM-DDTHH:MM:SSZ).'')
   \<and> fst (post_processed_agent_data other unix_body fresh) = Inr [(''message'', ''OK'')]
   \<and> table_rows (db (snd (post_processed_agent_data other unix_body fresh)))
       = [(1, ''pothole'', 7, 1 / 10, 2 / 10, 98 / 10, 501 / 10, 305 / 10,
           Naive 1704067200000000)]"
  by (simp add: iso_2024_def post_processed_agent_data_def validate_body_def
      pydantic_datetime_def unix_text_def digit_def unix_seconds_def unix_body_def
      create_processed_agent_data_def insert_values_def refused_def new_data_def int32_def
      fresh_def as_stored_def stored_timestamp_def)

subsection \<open>Round trips\<close>

text \<open>
  Claim C7, as stated: a create followed by a read of the id that the create returned gives
  a record with the fields of the input.

  The create returns no id: its answer to the spec's scenario record on the empty store is
  the dictionary \<open>{"message": "OK"}\<close>, which has no key \<open>id\<close>. And the timestamp does not
  always come back: for the scenario record with the timestamp 2024-01-01T02:00:00+02:00 the
  read of id 1, the id of the new row, has the timestamp 2024-01-01T00:00:00 with no offset.
\<close>

theorem create_returns_no_id:
  "fst (create_processed_agent_data pothole fresh) = Inr [(''message'', ''OK'')]
   \<and> returned_id (fst (create_processed_agent_data pothole fresh)) = None
   \<and> agent_timestamp (agent_data pothole_plus2) = Aware 1704074400000000 7200000000
   \<and> read_processed_agent_data 1 (snd (create_processed_agent_data pothole_plus2 fresh))
       = Inr \<lparr>db_id = 1, db_road_state = ''pothole'', db_user_id = 7, db_x = 1 / 10,
              db_y = 2 / 10, db_z = 98 / 10, db_latitude = 501 / 10, db_longitude = 305 / 10,
              db_timestamp = Naive 1704067200000000\<rparr>"
  by (simp add: create_processed_agent_data_def insert_values_def fresh_def returned_id_def
      refused_def new_data_def pothole_def pothole_plus2_def int32_def as_stored_def
      stored_timestamp_def read_processed_agent_data_def select_where_id_def row_id_def
      except_Exception_def row_to_model_def)

text \<open>
  Claim C7, amended: whenever a create succeeds, its answer is \<open>{"message": "OK"}\<close>, and a
  read of the id that the store assigned to the new row (the value of the id sequence when
  the create began) gives a record with that id whose road_state, user_id, x, y, z, latitude
  and longitude are those of the input, and whose timestamp is the input's as the
  \<open>DateTime\<close> column keeps it: the input's own when that carries no UTC offset, otherwise
  the same instant in the time zone of the session with the offset dropped, as long as
  that is a date of the years 1 to 9999.
\<close>

theorem create_then_read_assigned_id:
  assumes "fst (create_processed_agent_data data w) = Inr answer"
    and "representable (stored_timestamp (db w) (agent_timestamp (agent_data data)))"
  shows "answer = [(''message'', ''OK'')]
     \<and> read_processed_agent_data (id_seq (db w)) (snd (create_processed_agent_data data w))
         = Inr \<lparr>db_id = id_seq (db w),
                db_road_state = data_road_state data,
                db_user_id = agent_user_id (agent_data data),
                db_x = acc_x (accelerometer (agent_data data)),
                db_y = acc_y (accelerometer (agent_data data)),
                db_z = acc_z (accelerometer (agent_data data)),
                db_latitude = gps_latitude (gps (agent_data data)),
                db_longitude = gps_longitude (gps (agent_data data)),
                db_timestamp = stored_timestamp (db w) (agent_timestamp (agent_data data))\<rparr>
     \<and> stored_timestamp (db w) (Naive t) = Naive t
     \<and> stored_timestamp (db w) (Aware t off) = Naive (t - off + utc_offset (db w) (t - off))"
proof -
  let ?d = "db w"
  let ?row = "(id_seq ?d, as_stored ?d (new_data data))"
  note step = create_step [OF assms(1)]
  have "find (\<lambda>r. row_id r = id_seq ?d) (table_rows ?d @ [?row]) = Some ?row"
    using step(3) by (rule find_append_fresh)
  then have "read_processed_agent_data (id_seq ?d) (snd (create_processed_agent_data data w))
      = Inr (row_to_model ?row)"
    using step(2) by (simp add: step(4) read_found)
  then show ?thesis
    using step(1)
    by (simp add: row_to_model_def as_stored_def new_data_def stored_timestamp_def)
qed

text \<open>
  The amended C7 on a store of two rows whose sequence stands at 3 and whose session is in
  UTC, for the timestamp 2024-01-01T02:00:00+02:00.
\<close>

theorem create_then_read_assigned_id_witness:
  "fst (create_processed_agent_data pothole_plus2 two_rows) = Inr [(''message'', ''OK'')]
   \<and> representable (stored_timestamp (db two_rows) (agent_timestamp (agent_data pothole_plus2)))
   \<and> read_processed_agent_data 3 (snd (create_processed_agent_data pothole_plus2 two_rows))
       = Inr \<lparr>db_id = 3, db_road_state = ''pothole'', db_user_id = 7, db_x = 1 / 10,
              db_y = 2 / 10, db_z = 98 / 10, db_latitude = 501 / 10, db_longitude = 305 / 10,
              db_timestamp = Naive 1704067200000000\<rparr>"
proof -
  have h1: "fst (create_processed_agent_data pothole_plus2 two_rows)
      = Inr [(''message'', ''OK'')]"
    by (simp add: create_processed_agent_data_def insert_values_def two_rows_def row_id_def
        refused_def new_data_def pothole_plus2_def int32_def)
  have h2: "representable
      (stored_timestamp (db two_rows) (agent_timestamp (agent_data pothole_plus2)))"
    by (simp add: representable_def stored_timestamp_def two_rows_def pothole_plus2_def)
  have i: "id_seq (db two_rows) = 3" and z: "utc_offset (db two_rows) = (\<lambda>t. 0)"
    by (simp_all add: two_rows_def)
  show ?thesis
    using create_then_read_assigned_id [OF h1 h2] h1 h2 i
    by (simp add: pothole_plus2_def stored_timestamp_def z)
qed

text \<open>
  Claim C8, as stated: for every record present in the store, an update replaces the eight
  mutable fields in one step and leaves the id; a read of the id afterwards returns the new
  fields with the original id, no old value among them.

  It fails on the store of two rows. An update of row 2 with the timestamp
  2024-01-01T02:00:00+02:00 answers with that timestamp, and the read after it returns
  2024-01-01T00:00:00 with no offset. An update of row 2 with the user_id \<open>2^31\<close>, which the
  \<open>Integer\<close> column cannot hold, is answered 500, and the read after it returns the old
  row.
\<close>

theorem update_read_differs:
  "fst (update_processed_agent_data 2 pothole_plus2 two_rows)
     = Inr \<lparr>db_id = 2, db_road_state = ''pothole'', db_user_id = 7, db_x = 1 / 10,
            db_y = 2 / 10, db_z = 98 / 10, db_latitude = 501 / 10, db_longitude = 305 / 10,
            db_timestamp = Aware 1704074400000000 7200000000\<rparr>
   \<and> read_processed_agent_data 2 (snd (update_processed_agent_data 2 pothole_plus2 two_rows))
     = Inr \<lparr>db_id = 2, db_road_state = ''pothole'', db_user_id = 7, db_x = 1 / 10,
            db_y = 2 / 10, db_z = 98 / 10, db_latitude = 501 / 10, db_longitude = 305 / 10,
            db_timestamp = Naive 1704067200000000\<rparr>
   \<and> fst (update_processed_agent_data 2 pothole_big_user two_rows)
     = Inl (HTTPException 500 (StrOf DataError))
   \<and> read_processed_agent_data 2 (snd (update_processed_agent_data 2 pothole_big_user two_rows))
     = Inr \<lparr>db_id = 2, db_road_state = ''bump'', db_user_id = 8, db_x = 3, db_y = 4, db_z = 5,
            db_latitude = 49, db_longitude = 24, db_timestamp = Naive 1704070800000000\<rparr>"
  by (simp add: update_processed_agent_data_def update_where_id_def two_rows_def
      refused_def new_data_def pothole_def bump_def pothole_plus2_def pothole_big_user_def
      int32_def as_stored_def stored_timestamp_def read_processed_agent_data_def
      select_where_id_def row_id_def except_Exception_def row_to_model_def)

text \<open>
  Claim C8, amended: for every record present in the store and all new field values that the
  store can hold (a user_id within the 32-bit \<open>Integer\<close> column, a road_state without a NUL
  character), an update replaces the eight mutable fields in one step and leaves the id: it
  answers with the new fields and the id, and a read of the id afterwards returns the new
  fields with the id, no old value among them, the timestamp as the \<open>DateTime\<close> column
  keeps it: the new one itself when that carries no UTC offset, otherwise the same instant in
  the time zone of the session with the offset dropped, as long as that is a date of the
  years 1 to 9999. A read of any other id returns what it returned before.
\<close>

theorem update_then_read:
  assumes "reachable (db w)"
    and "record_id \<in> set (map row_id (table_rows (db w)))"
    and "refused (new_data data) = None"
    and "representable (stored_timestamp (db w) (agent_timestamp (agent_data data)))"
  shows "fst (update_processed_agent_data record_id data w)
         = Inr \<lparr>db_id = record_id,
                db_road_state = data_road_state data,
                db_user_id = agent_user_id (agent_data data),
                db_x = acc_x (accelerometer (agent_data data)),
                db_y = acc_y (accelerometer (agent_data data)),
                db_z = acc_z (accelerometer (agent_data data)),
                db_latitude = gps_latitude (gps (agent_data data)),
                db_longitude = gps_longitude (gps (agent_data data)),
                db_timestamp = agent_timestamp (agent_data data)\<rparr>
     \<and> read_processed_agent_data j (snd (update_processed_agent_data record_id data w))
         = (if j = record_id
            then Inr \<lparr>db_id = record_id,
                      db_road_state = data_road_state data,
                      db_user_id = agent_user_id (agent_data data),
                      db_x = acc_x (accelerometer (agent_data data)),
                      db_y = acc_y (accelerometer (agent_data data)),
                      db_z = acc_z (accelerometer (agent_data data)),
                      db_latitude = gps_latitude (gps (agent_data data)),
                      db_longitude = gps_longitude (gps (agent_data data)),
                      db_timestamp =
                        stored_timestamp (db w) (agent_timestamp (agent_data data))\<rparr>
            else read_processed_agent_data j w)
     \<and> stored_timestamp (db w) (Naive t) = Naive t
     \<and> stored_timestamp (db w) (Aware t off) = Naive (t - off + utc_offset (db w) (t - off))"
proof -
  let ?vs = "as_stored (db w) (new_data data)"
  let ?rows = "map (\<lambda>r. if row_id r = record_id then (row_id r, ?vs) else r)
                 (table_rows (db w))"
  let ?w' = "w\<lparr>db := (db w)\<lparr>table_rows := ?rows\<rparr>\<rparr>"
  have step: "update_processed_agent_data record_id data w
      = (Inr (row_to_model (record_id, new_data data)), ?w')"
    using assms(1,3) by (rule update_step)
  have same: "read_processed_agent_data record_id ?w' = Inr (row_to_model (record_id, ?vs))"
  proof (rule read_found)
    show "reachable (db ?w')"
      using assms(1) by simp
    show "find (\<lambda>r. row_id r = record_id) (table_rows (db ?w')) = Some (record_id, ?vs)"
      using find_map_update [OF assms(2)] by simp
  qed
  have other: "read_processed_agent_data j ?w' = read_processed_agent_data j w"
    if "j \<noteq> record_id"
  proof (rule read_cong)
    show "reachable (db ?w') = reachable (db w)"
      by simp
    show "find (\<lambda>r. row_id r = j) (table_rows (db ?w'))
        = find (\<lambda>r. row_id r = j) (table_rows (db w))"
      using find_map_update_other [OF that] by simp
  qed
  show ?thesis
    using same other
    by (simp add: step row_to_model_def as_stored_def new_data_def stored_timestamp_def)
qed

text \<open>
  The amended C8 on the store of two rows, whose session is in UTC: row 2 takes the fields
  of the scenario record with the timestamp 2024-01-01T02:00:00+02:00; a read of 2 returns
  them with id 2 and the timestamp 2024-01-01T00:00:00, and a read of 1 returns row 1.
\<close>

theorem update_then_read_witness:
  "reachable (db two_rows) \<and> 2 \<in> set (map row_id (table_rows (db two_rows)))
   \<and> refused (new_data pothole_plus2) = None
   \<and> representable (stored_timestamp (db two_rows) (agent_timestamp (agent_data pothole_plus2)))
   \<and> read_processed_agent_data 2 (snd (update_processed_agent_data 2 pothole_plus2 two_rows))
       = Inr \<lparr>db_id = 2, db_road_state = ''pothole'', db_user_id = 7, db_x = 1 / 10,
              db_y = 2 / 10, db_z = 98 / 10, db_latitude = 501 / 10, db_longitude = 305 / 10,
              db_timestamp = Naive 1704067200000000\<rparr>
   \<and> read_processed_agent_data 1 (snd (update_processed_agent_data 2 pothole_plus2 two_rows))
       = Inr \<lparr>db_id = 1, db_road_state = ''pothole'', db_user_id = 7, db_x = 1 / 10,
              db_y = 2 / 10, db_z = 98 / 10, db_latitude = 501 / 10, db_longitude = 305 / 10,
              db_timestamp = Naive 1704067200000000\<rparr>"
proof -
  have h1: "reachable (db two_rows)"
    by (simp add: two_rows_def)
  have h2: "2 \<in> set (map row_id (table_rows (db two_rows)))"
    by (simp add: two_rows_def row_id_def)
  have h3: "refused (new_data pothole_plus2) = None"
    by (simp add: refused_def new_data_def pothole_plus2_def int32_def)
  have h4: "representable
      (stored_timestamp (db two_rows) (agent_timestamp (agent_data pothole_plus2)))"
    by (simp add: representable_def stored_timestamp_def two_rows_def pothole_plus2_def)
  have z: "utc_offset (db two_rows) = (\<lambda>t. 0)"
    by (simp add: two_rows_def)
  have r1: "read_processed_agent_data 1 two_rows
      = Inr \<lparr>db_id = 1, db_road_state = ''pothole'', db_user_id = 7, db_x = 1 / 10,
              db_y = 2 / 10, db_z = 98 / 10, db_latitude = 501 / 10, db_longitude = 305 / 10,
              db_timestamp = Naive 1704067200000000\<rparr>"
    by (simp add: read_processed_agent_data_def select_where_id_def two_rows_def row_id_def
        except_Exception_def row_to_model_def new_data_def pothole_def)
  show ?thesis
    using update_then_read [OF h1 h2 h3 h4, of 2] update_then_read [OF h1 h2 h3 h4, of 1]
      h1 h2 h3 h4 r1
    by (simp add: pothole_plus2_def stored_timestamp_def z)
qed

subsection \<open>Removing a subscriber\<close>

text \<open>
  Claim C9, as stated: removing a subscriber that is not in the set is a no-op that
  completes without error and leaves the set unchanged.

  On the empty set the removal of socket 1 raises \<open>KeyError\<close>.
\<close>

theorem remove_absent_raises:
  "set_remove 1 (subscriptions fresh) = Inl KeyError
   \<and> websocket_disconnect 1 fresh = (Inl KeyError, fresh)"
  by (simp add: websocket_disconnect_def set_remove_def fresh_def)

text \<open>
  Claim C9, amended: removing a subscriber that is not in the set leaves the set unchanged
  and raises \<open>KeyError\<close>. In \<open>websocket_endpoint\<close> the socket removed is the one the endpoint
  added, so there the removal completes without error, and a socket that was not subscribed
  before the endpoint ran leaves the set as it found it.
\<close>

theorem remove_absent_KeyError:
  assumes "ws \<notin> subscriptions w"
  shows "set_remove ws (subscriptions w) = Inl KeyError
     \<and> websocket_disconnect ws w = (Inl KeyError, w)
     \<and> websocket_endpoint ws w = (Inr (), w)"
  using assms
  by (simp add: websocket_disconnect_def set_remove_def websocket_endpoint_def
      websocket_connect_def)

text \<open>The amended C9 at socket 4, which is not among the subscribers 1, 2, 3.\<close>

theorem remove_absent_KeyError_witness:
  "4 \<notin> subscriptions three_listeners
   \<and> websocket_disconnect 4 three_listeners = (Inl KeyError, three_listeners)
   \<and> subscriptions (snd (websocket_disconnect 4 three_listeners)) = {1, 2, 3}
   \<and> websocket_endpoint 4 three_listeners = (Inr (), three_listeners)"
proof -
  have h: "4 \<notin> subscriptions three_listeners"
    by (simp add: three_listeners_def)
  have s: "subscriptions three_listeners = {1, 2, 3}"
    by (simp add: three_listeners_def)
  show ?thesis
    using remove_absent_KeyError [OF h] h s by simp
qed

subsection \<open>The path segment\<close>



end
